theory Spec2Isabelle
  imports Main
begin

section \<open>The node deletion step of the AWS workflow (delete\_machine.go)\<close>

text \<open>
  A shallow embedding of \<^verbatim>\<open>pkg/workflows/steps/amazon/delete_machine.go\<close>.
  Go pointers are options (\<open>None\<close> is \<open>nil\<close>), a Go \<open>(value, error)\<close> result is a
  pair whose second component is \<open>None\<close> when the error is \<open>nil\<close>, and a run-time
  panic (a nil pointer dereference) is an outcome of its own. The cloud provider is
  a state of an arbitrary type \<open>'g\<close> that every gateway operation reads and may
  change; everything the step does to the outside (log lines and gateway calls) is
  recorded, in order, in a list of events.
\<close>

subsection \<open>Errors\<close>

text \<open>
  Modelled from the spec: the sentinel errors \<open>ErrAuthorization\<close> and \<open>ErrDeleteNode\<close>
  are package variables declared in another file of package \<open>amazon\<close>; the spec
  describes them as the classification tags Authorization and Lookup (DeleteNode),
  so they are two constants of the error type. \<open>Foreign\<close> is an error value made
  outside the step (by the SDK or by the service constructor), identified by its
  text. \<open>Wrap cause m\<close> is what \<open>errors.Wrap(cause, m)\<close> of
  \<^verbatim>\<open>github.com/pkg/errors\<close> returns for a non-nil cause. The texts of the sentinels
  are not known here, so the message \<open>err.Error()\<close> is kept as \<open>ErrorOf err\<close>
  instead of being rendered.
\<close>

datatype error =
    ErrAuthorization
  | ErrDeleteNode
  | Foreign string
  | Wrap error message
and message =
    Text string
  | ErrorOf error


subsection \<open>The SDK's request and response structures\<close>

text \<open>Only the fields the step writes or reads. Pointer-typed fields are options.\<close>

record Filter =
  filter_Name :: "string option"
  filter_Values :: "string option list"

record DescribeInstancesInput =
  Filters :: "Filter option list"

record TerminateInstancesInput =
  InstanceIds :: "string option list"

record CancelSpotInstanceRequestsInput =
  SpotInstanceRequestIds :: "string option list"

record Instance =
  InstanceId :: "string option"
  SpotInstanceRequestId :: "string option"

record Reservation =
  Instances :: "Instance option list"

record DescribeInstancesOutput =
  Reservations :: "Reservation option list"

text \<open>\<open>aws.String\<close> and \<open>aws.StringSlice\<close>: pointers to the given strings.\<close>

definition aws_String :: "string \<Rightarrow> string option" where
  "aws_String v = Some v"

definition aws_StringSlice :: "string list \<Rightarrow> string option list" where
  "aws_StringSlice src = map Some src"

subsection \<open>The gateway and the step\<close>

text \<open>
  The interface \<open>instanceDeleter\<close>. Each operation takes the context, the request
  and the provider's state, and returns its result with the provider's new state.
  The output structures of termination and cancellation are discarded by the step
  (\<^verbatim>\<open>_, err = ...\<close>), so only their error is kept.
\<close>

record ('c, 'g) instanceDeleter =
  DescribeInstancesWithContext ::
    "'c \<Rightarrow> DescribeInstancesInput \<Rightarrow> 'g \<Rightarrow> (DescribeInstancesOutput option \<times> error option) \<times> 'g"
  TerminateInstancesWithContext ::
    "'c \<Rightarrow> TerminateInstancesInput \<Rightarrow> 'g \<Rightarrow> error option \<times> 'g"
  CancelSpotInstanceRequestsWithContext ::
    "'c \<Rightarrow> CancelSpotInstanceRequestsInput \<Rightarrow> 'g \<Rightarrow> error option \<times> 'g"

record ('a, 'c, 'g) DeleteNodeStep =
  getSvc :: "'a \<Rightarrow> ('c, 'g) instanceDeleter option \<times> error option"

text \<open>
  \<open>steps.Config\<close> is declared in package \<open>steps\<close>; the step reads the node's name,
  the cluster's name and the provider configuration, whose type \<open>'a\<close> is left open.
\<close>

record Node =
  node_Name :: string

record Kube =
  kube_Name :: string

record 'a Config =
  Node :: Node
  Kube :: Kube
  AWSConfig :: 'a

subsection \<open>Events and outcomes\<close>

datatype level = InfoLevel | DebugLevel | ErrorLevel

text \<open>The arguments of a format string, kept unrendered.\<close>

datatype arg = S string | N nat | E error | L "string list"

text \<open>
  \<open>Logrus\<close> is a line on the global logger, \<open>WriterLog\<close> a line on the logger that
  \<open>util.GetLogger(w)\<close> makes for the output sink. A gateway call is recorded with
  its request and with what the gateway answered.
\<close>

datatype 'c event =
    Logrus level string "arg list"
  | WriterLog level string "arg list"
  | DescribeInstances 'c DescribeInstancesInput "DescribeInstancesOutput option \<times> error option"
  | TerminateInstances 'c TerminateInstancesInput "error option"
  | CancelSpotInstanceRequests 'c CancelSpotInstanceRequestsInput "error option"

datatype result = Return "error option" | Panic

text \<open>
  What an invocation leaves behind: how it ended, its events in order, the
  configuration behind the pointer \<open>cfg\<close>, and the provider's state.
\<close>

record ('a, 'c, 'g) outcome =
  returned :: result
  events :: "'c event list"
  config_after :: "'a Config"
  provider_after :: 'g

subsection \<open>The step's methods\<close>

definition DeleteNodeStepName :: string where
  "DeleteNodeStepName = ''aws_delete_node''"

definition Name :: "('a, 'c, 'g) DeleteNodeStep \<Rightarrow> string" where
  "Name s = DeleteNodeStepName"

definition Depends :: "('a, 'c, 'g) DeleteNodeStep \<Rightarrow> string list" where
  "Depends s = []"

definition Description :: "('a, 'c, 'g) DeleteNodeStep \<Rightarrow> string" where
  "Description s = ''Deletes node in aws cluster''"

text \<open>
  \<open>NewDeleteNode\<close>: the service constructor \<open>fn\<close> with its error classified as an
  authorization error.
\<close>

definition NewDeleteNode ::
  "('a \<Rightarrow> ('c, 'g) instanceDeleter option \<times> error option) \<Rightarrow> ('a, 'c, 'g) DeleteNodeStep" where
  "NewDeleteNode fn =
     \<lparr>getSvc = (\<lambda>cfg.
        case fn cfg of
          (EC2, Some err) \<Rightarrow> (None, Some (Wrap ErrAuthorization (ErrorOf err)))
        | (EC2, None) \<Rightarrow> (EC2, None))\<rparr>"

text \<open>
  The loops of lines 78 to 86 over the reservations and their instances. The
  accumulator is the pair \<open>(instanceIDS, spotRequestIDs)\<close>; the result is \<open>None\<close>
  when the loop panics: on a nil reservation (\<open>res.Instances\<close>), on a nil instance
  (\<open>instance.InstanceId\<close>) and on a nil identifier (\<open>*instance.InstanceId\<close>).
\<close>

fun collect_instances ::
  "Instance option list \<Rightarrow> string list \<times> string list \<Rightarrow> (string list \<times> string list) option" where
  "collect_instances [] acc = Some acc"
| "collect_instances (None # rest) acc = None"
| "collect_instances (Some instance # rest) (instanceIDS, spotRequestIDs) =
     (case InstanceId instance of
        None \<Rightarrow> None
      | Some iid \<Rightarrow>
          collect_instances rest
            (instanceIDS @ [iid],
             (case SpotInstanceRequestId instance of
                None \<Rightarrow> spotRequestIDs
              | Some sid \<Rightarrow> spotRequestIDs @ [sid])))"

fun collect_reservations ::
  "Reservation option list \<Rightarrow> string list \<times> string list \<Rightarrow> (string list \<times> string list) option" where
  "collect_reservations [] acc = Some acc"
| "collect_reservations (None # rest) acc = None"
| "collect_reservations (Some res # rest) acc =
     (case collect_instances (Instances res) acc of
        None \<Rightarrow> None
      | Some acc' \<Rightarrow> collect_reservations rest acc')"

text \<open>The request of lines 61 to 68; \<open>TagNodeName\<close> is \<open>clouds.TagNodeName\<close>.\<close>

definition describe_input :: "string \<Rightarrow> 'a Config \<Rightarrow> DescribeInstancesInput" where
  "describe_input TagNodeName cfg =
     \<lparr>Filters = [Some \<lparr>filter_Name = aws_String (''tag:'' @ TagNodeName),
                        filter_Values = aws_StringSlice [node_Name (Node cfg)]\<rparr>]\<rparr>"

text \<open>
  \<open>Run\<close>. The constant \<open>clouds.TagNodeName\<close> is declared in another package and is
  the first parameter. \<open>cfg\<close> is the configuration behind the (non-nil) pointer the
  engine passes; \<open>g\<close> is the provider's state when the step starts.
\<close>

definition Run ::
  "string \<Rightarrow> ('a, 'c, 'g) DeleteNodeStep \<Rightarrow> 'c \<Rightarrow> 'w \<Rightarrow> 'a Config \<Rightarrow> 'g \<Rightarrow> ('a, 'c, 'g) outcome" where
  "Run TagNodeName s ctx w cfg g =
    (let ev0 = [Logrus InfoLevel ''[%s] - deleting node %s'' [S (Name s), S (node_Name (Node cfg))]] in
     case getSvc s (AWSConfig cfg) of
       (svc, Some err) \<Rightarrow>
         \<lparr>returned = Return (Some (Wrap ErrAuthorization (ErrorOf err))),
          events = ev0 @ [Logrus ErrorLevel ''Error getting service %v'' [E err]],
          config_after = cfg, provider_after = g\<rparr>
     | (None, None) \<Rightarrow>
         \<lparr>returned = Panic,
          events = ev0 @ [Logrus DebugLevel ''Get instance by name filter %s'' [S (node_Name (Node cfg))]],
          config_after = cfg, provider_after = g\<rparr>
     | (Some svc, None) \<Rightarrow>
        (let input = describe_input TagNodeName cfg;
             (answer, g1) = DescribeInstancesWithContext svc ctx input g;
             ev1 = ev0 @ [Logrus DebugLevel ''Get instance by name filter %s'' [S (node_Name (Node cfg))],
                          DescribeInstances ctx input answer] in
         case answer of
           (describeInstanceOutput, Some err) \<Rightarrow>
             \<lparr>returned = Return (Some (Wrap ErrDeleteNode (ErrorOf err))),
              events = ev1, config_after = cfg, provider_after = g1\<rparr>
         | (None, None) \<Rightarrow>
             \<lparr>returned = Panic, events = ev1, config_after = cfg, provider_after = g1\<rparr>
         | (Some describeInstanceOutput, None) \<Rightarrow>
            (let ev2 = ev1 @ [Logrus DebugLevel ''Got %d instance outputs''
                                [N (length (Reservations describeInstanceOutput))]] in
             case collect_reservations (Reservations describeInstanceOutput) ([], []) of
               None \<Rightarrow>
                 \<lparr>returned = Panic, events = ev2, config_after = cfg, provider_after = g1\<rparr>
             | Some (instanceIDS, spotRequestIDs) \<Rightarrow>
                 if length instanceIDS = 0 then
                   \<lparr>returned = Return None,
                    events = ev2 @ [Logrus InfoLevel ''[%s] - node %s not found in cluster %s''
                                      [S (Name s), S (node_Name (Node cfg)), S (kube_Name (Kube cfg))]],
                    config_after = cfg, provider_after = g1\<rparr>
                 else
                  (let terminate = \<lparr>InstanceIds = aws_StringSlice instanceIDS\<rparr>;
                       (err, g2) = TerminateInstancesWithContext svc ctx terminate g1;
                       ev3 = ev2 @ [Logrus DebugLevel ''Node to be deleted Name: %s AWS id: %v''
                                      [S (node_Name (Node cfg)), L instanceIDS],
                                    TerminateInstances ctx terminate err] in
                   case err of
                     Some err \<Rightarrow>
                       \<lparr>returned = Return (Some (Wrap err
                                     (Text (DeleteNodeStepName @ '' terminate instance'')))),
                        events = ev3, config_after = cfg, provider_after = g2\<rparr>
                   | None \<Rightarrow>
                      (let cancel = \<lparr>SpotInstanceRequestIds = aws_StringSlice spotRequestIDs\<rparr>;
                           (err, g3) = CancelSpotInstanceRequestsWithContext svc ctx cancel g2;
                           ev4 = ev3 @ [CancelSpotInstanceRequests ctx cancel err]
                                     @ (case err of
                                          Some err \<Rightarrow> [Logrus ErrorLevel ''cancel spot requests caused %v'' [E err]]
                                        | None \<Rightarrow> [])
                                     @ [WriterLog InfoLevel ''[%s] - finished successfully'' [S (Name s)]] in
                       \<lparr>returned = Return None, events = ev4,
                        config_after = cfg, provider_after = g3\<rparr>)))))"

text \<open>\<open>Rollback\<close> ignores its arguments and returns nil.\<close>

definition Rollback ::
  "('a, 'c, 'g) DeleteNodeStep \<Rightarrow> 'c \<Rightarrow> 'w \<Rightarrow> 'a Config \<Rightarrow> 'g \<Rightarrow> ('a, 'c, 'g) outcome" where
  "Rollback s ctx w cfg g =
     \<lparr>returned = Return None, events = [], config_after = cfg, provider_after = g\<rparr>"

subsection \<open>Notions used to state the properties\<close>

text \<open>
  The instances of a lookup result, in the order the loops visit them: those of
  every reservation, one reservation after the other.
\<close>

definition instances_in :: "Reservation option list \<Rightarrow> Instance list" where
  "instances_in rs =
     concat (map (\<lambda>res. case res of None \<Rightarrow> [] | Some r \<Rightarrow> List.map_filter id (Instances r)) rs)"

definition instances_of :: "DescribeInstancesOutput \<Rightarrow> Instance list" where
  "instances_of out = instances_in (Reservations out)"

text \<open>
  A lookup result without nil pointers: every reservation and every instance is
  there, and every instance carries its identifier (the spec's provider instance
  has "a unique provider-assigned identifier"). The spot request identifier may be
  nil.
\<close>

definition instance_ok :: "Instance option \<Rightarrow> bool" where
  "instance_ok p = (case p of None \<Rightarrow> False | Some i \<Rightarrow> InstanceId i \<noteq> None)"

definition reservation_ok :: "Reservation option \<Rightarrow> bool" where
  "reservation_ok p = (case p of None \<Rightarrow> False | Some r \<Rightarrow> list_all instance_ok (Instances r))"

definition no_nil :: "DescribeInstancesOutput \<Rightarrow> bool" where
  "no_nil out = list_all reservation_ok (Reservations out)"

text \<open>The gateway calls among the events, and the two mutating kinds of call.\<close>

fun is_call :: "'c event \<Rightarrow> bool" where
  "is_call (Logrus l f as) = False"
| "is_call (WriterLog l f as) = False"
| "is_call e = True"

fun is_termination :: "'c event \<Rightarrow> bool" where
  "is_termination (TerminateInstances c i r) = True"
| "is_termination e = False"

fun is_cancellation :: "'c event \<Rightarrow> bool" where
  "is_cancellation (CancelSpotInstanceRequests c i r) = True"
| "is_cancellation e = False"

text \<open>
  A gateway whose answers are a fixed function of the requests it receives: what
  it answers does not depend on the provider's state.
\<close>

definition fixed_responses :: "('c, 'g) instanceDeleter \<Rightarrow> bool" where
  "fixed_responses svc =
     (\<forall>ctx g g'.
        (\<forall>i. fst (DescribeInstancesWithContext svc ctx i g) = fst (DescribeInstancesWithContext svc ctx i g')) \<and>
        (\<forall>i. fst (TerminateInstancesWithContext svc ctx i g) = fst (TerminateInstancesWithContext svc ctx i g')) \<and>
        (\<forall>i. fst (CancelSpotInstanceRequestsWithContext svc ctx i g) =
              fst (CancelSpotInstanceRequestsWithContext svc ctx i g')))"

subsection \<open>Test doubles\<close>

text \<open>
  A gateway that gives the same three answers whatever it is asked, and counts the
  calls it receives in the provider's state; a step whose service constructor
  succeeds with a given gateway or fails with a given error; a configuration for a
  node name.
\<close>

definition stub_gateway ::
  "DescribeInstancesOutput option \<times> error option \<Rightarrow> error option \<Rightarrow> error option \<Rightarrow> (unit, nat) instanceDeleter" where
  "stub_gateway d t c =
     \<lparr>DescribeInstancesWithContext = (\<lambda>ctx input g. (d, Suc g)),
      TerminateInstancesWithContext = (\<lambda>ctx input g. (t, Suc g)),
      CancelSpotInstanceRequestsWithContext = (\<lambda>ctx input g. (c, Suc g))\<rparr>"

definition stub_step :: "(unit, nat) instanceDeleter \<Rightarrow> (unit, unit, nat) DeleteNodeStep" where
  "stub_step svc = \<lparr>getSvc = (\<lambda>cfg. (Some svc, None))\<rparr>"

definition failing_step :: "error \<Rightarrow> (unit, unit, nat) DeleteNodeStep" where
  "failing_step err = \<lparr>getSvc = (\<lambda>cfg. (None, Some err))\<rparr>"

definition node_config :: "string \<Rightarrow> unit Config" where
  "node_config name =
     \<lparr>Node = \<lparr>node_Name = name\<rparr>, Kube = \<lparr>kube_Name = ''cluster''\<rparr>, AWSConfig = ()\<rparr>"

definition answer_with :: "Instance list \<Rightarrow> DescribeInstancesOutput option \<times> error option" where
  "answer_with is = (Some \<lparr>Reservations = [Some \<lparr>Instances = map Some is\<rparr>]\<rparr>, None)"

text \<open>
  Two instances of one node: the first bought through a spot request, the second
  not.
\<close>

definition two_instances :: "Instance list" where
  "two_instances =
     [\<lparr>InstanceId = Some ''i-1'', SpotInstanceRequestId = Some ''sir-1''\<rparr>,
      \<lparr>InstanceId = Some ''i-2'', SpotInstanceRequestId = None\<rparr>]"

section \<open>Properties\<close>

subsection \<open>The collection loops\<close>

lemma map_filter_app:
  "List.map_filter f (xs @ ys) = List.map_filter f xs @ List.map_filter f ys"
  by (simp add: List.map_filter_def)

lemma collect_instances_eq:
  "collect_instances is (ids, spots) =
     (if list_all instance_ok is
      then Some (ids @ map (the \<circ> InstanceId) (List.map_filter id is),
                 spots @ List.map_filter SpotInstanceRequestId (List.map_filter id is))
      else None)"
proof (induction "is" arbitrary: ids spots)
  case Nil
  show ?case by simp
next
  case (Cons p ps)
  show ?case
  proof (cases p)
    case None
    then show ?thesis by (simp add: instance_ok_def)
  next
    case (Some i)
    then show ?thesis
      using Cons.IH
      by (cases "InstanceId i"; cases "SpotInstanceRequestId i")
         (simp_all add: instance_ok_def)
  qed
qed

lemma collect_reservations_eq:
  "collect_reservations rs (ids, spots) =
     (if list_all reservation_ok rs
      then Some (ids @ map (the \<circ> InstanceId) (instances_in rs),
                 spots @ List.map_filter SpotInstanceRequestId (instances_in rs))
      else None)"
proof (induction rs arbitrary: ids spots)
  case Nil
  show ?case by (simp add: instances_in_def)
next
  case (Cons p ps)
  show ?case
  proof (cases p)
    case None
    then show ?thesis by (simp add: reservation_ok_def)
  next
    case (Some r)
    then show ?thesis
      using Cons.IH
      by (simp add: reservation_ok_def collect_instances_eq instances_in_def map_filter_app)
  qed
qed

lemma collect_output:
  "collect_reservations (Reservations out) ([], []) =
     (if no_nil out
      then Some (map (the \<circ> InstanceId) (instances_of out),
                 List.map_filter SpotInstanceRequestId (instances_of out))
      else None)"
  by (simp add: collect_reservations_eq no_nil_def instances_of_def)

lemma instances_in_ok:
  "list_all reservation_ok rs \<Longrightarrow> i \<in> set (instances_in rs) \<Longrightarrow> InstanceId i \<noteq> None"
  by (auto simp: instances_in_def reservation_ok_def instance_ok_def list_all_iff
        List.map_filter_def split: option.splits)

lemma ids_of_no_nil:
  assumes "no_nil out"
  shows "aws_StringSlice (map (the \<circ> InstanceId) (instances_of out)) = map InstanceId (instances_of out)"
  using assms instances_in_ok [of "Reservations out"]
  by (auto simp: no_nil_def instances_of_def aws_StringSlice_def)

lemma spots_of:
  "aws_StringSlice (List.map_filter SpotInstanceRequestId is) =
     filter (\<lambda>p. p \<noteq> None) (map SpotInstanceRequestId is)"
  by (induction "is") (auto simp: aws_StringSlice_def split: option.splits)

subsection \<open>What a run does\<close>

lemma filter_cong_calls:
  "filter is_termination (filter is_call evs) = filter is_termination evs"
  "filter is_cancellation (filter is_call evs) = filter is_cancellation evs"
  by (induction evs) (auto elim: is_termination.elims is_cancellation.elims)

lemma Run_termination_event:
  assumes "TerminateInstances c req r \<in> set (events (Run TagNodeName s ctx w cfg g))"
  shows "\<exists>svc out g1 g2.
           getSvc s (AWSConfig cfg) = (Some svc, None) \<and>
           DescribeInstancesWithContext svc ctx (describe_input TagNodeName cfg) g = ((Some out, None), g1) \<and>
           no_nil out \<and> instances_of out \<noteq> [] \<and> c = ctx \<and>
           req = \<lparr>InstanceIds = aws_StringSlice (map (the \<circ> InstanceId) (instances_of out))\<rparr> \<and>
           TerminateInstancesWithContext svc ctx req g1 = (r, g2)"
proof -
  obtain p perr where svc: "getSvc s (AWSConfig cfg) = (p, perr)"
    by (cases "getSvc s (AWSConfig cfg)")
  have perr: "perr = None"
    using assms svc by (cases perr; cases p) (simp_all add: Run_def)
  then obtain svc where p: "p = Some svc"
    using assms svc by (cases p) (simp_all add: Run_def)
  obtain q qerr g1 where
    d: "DescribeInstancesWithContext svc ctx (describe_input TagNodeName cfg) g = ((q, qerr), g1)"
    by (metis surj_pair)
  have qerr: "qerr = None"
    using assms svc perr p d by (cases qerr; cases q) (simp_all add: Run_def)
  then obtain out where q: "q = Some out"
    using assms svc perr p d by (cases q) (simp_all add: Run_def)
  have nn: "no_nil out"
    using assms svc perr p d qerr q
    by (cases "no_nil out") (simp_all add: Run_def collect_output)
  have ne: "instances_of out \<noteq> []"
    using assms svc perr p d qerr q nn
    by (cases "instances_of out = []") (simp_all add: Run_def collect_output)
  let ?req = "\<lparr>InstanceIds = aws_StringSlice (map (the \<circ> InstanceId) (instances_of out))\<rparr>"
  obtain terr g2 where t: "TerminateInstancesWithContext svc ctx ?req g1 = (terr, g2)"
    by (metis surj_pair)
  have "c = ctx \<and> req = ?req \<and> r = terr"
    using assms svc perr p d qerr q nn ne t
    by (cases terr)
       (auto simp add: Run_def Let_def collect_output split: prod.splits option.splits)
  then show ?thesis
    using svc perr p d qerr q nn ne t by simp
qed

lemma Run_found:
  assumes "getSvc s (AWSConfig cfg) = (Some svc, None)"
    and "DescribeInstancesWithContext svc ctx (describe_input TagNodeName cfg) g = ((Some out, None), g1)"
    and "no_nil out"
    and "instances_of out \<noteq> []"
    and "TerminateInstancesWithContext svc ctx
           \<lparr>InstanceIds = aws_StringSlice (map (the \<circ> InstanceId) (instances_of out))\<rparr> g1 = (terr, g2)"
    and "CancelSpotInstanceRequestsWithContext svc ctx
           \<lparr>SpotInstanceRequestIds =
              aws_StringSlice (List.map_filter SpotInstanceRequestId (instances_of out))\<rparr> g2 = (cerr, g3)"
  shows "returned (Run TagNodeName s ctx w cfg g) =
           (case terr of
              None \<Rightarrow> Return None
            | Some e \<Rightarrow> Return (Some (Wrap e (Text ''aws_delete_node terminate instance''))))"
    and "filter is_call (events (Run TagNodeName s ctx w cfg g)) =
           [DescribeInstances ctx (describe_input TagNodeName cfg) (Some out, None),
            TerminateInstances ctx
              \<lparr>InstanceIds = aws_StringSlice (map (the \<circ> InstanceId) (instances_of out))\<rparr> terr]
           @ (case terr of
                None \<Rightarrow> [CancelSpotInstanceRequests ctx
                           \<lparr>SpotInstanceRequestIds =
                              aws_StringSlice (List.map_filter SpotInstanceRequestId (instances_of out))\<rparr> cerr]
              | Some e \<Rightarrow> [])"
    and "terr = None \<Longrightarrow> cerr = Some e \<Longrightarrow>
           Logrus ErrorLevel ''cancel spot requests caused %v'' [E e]
             \<in> set (events (Run TagNodeName s ctx w cfg g))"
    and "provider_after (Run TagNodeName s ctx w cfg g) = (case terr of None \<Rightarrow> g3 | Some e \<Rightarrow> g2)"
  using assms
  by (cases terr; cases cerr; simp add: Run_def Let_def collect_output DeleteNodeStepName_def)+

lemma Run_returns_without_nil:
  assumes "getSvc s (AWSConfig cfg) = (Some svc, None)"
    and "DescribeInstancesWithContext svc ctx (describe_input TagNodeName cfg) g = ((Some out, e), g1)"
    and "no_nil out"
  shows "returned (Run TagNodeName s ctx w cfg g) \<noteq> Panic"
  using assms
  by (simp add: Run_def Let_def collect_output split: prod.splits option.splits)

text \<open>A request with one field is that field.\<close>

lemma InstanceIds_eq: "InstanceIds req = ids \<Longrightarrow> req = \<lparr>InstanceIds = ids\<rparr>"
  by (cases req) simp

lemma SpotInstanceRequestIds_eq:
  "SpotInstanceRequestIds creq = ids \<Longrightarrow> creq = \<lparr>SpotInstanceRequestIds = ids\<rparr>"
  by (cases creq) simp

subsection \<open>Properties of Run and Rollback\<close>

text \<open>The definitions a run of the test doubles unfolds.\<close>

lemmas fixtures =
  stub_gateway_def stub_step_def failing_step_def node_config_def answer_with_def
  describe_input_def aws_String_def aws_StringSlice_def Name_def DeleteNodeStepName_def

lemmas shapes =
  no_nil_def reservation_ok_def instance_ok_def instances_of_def instances_in_def

text \<open>
  C1. When the service constructor succeeds and the lookup succeeds with a result
  that has no nil pointer (\<open>no_nil\<close>) and no instance for the node's name tag
  (the request is \<open>describe_input\<close>: the filter \<open>tag:TagNodeName\<close> with the
  node's name as its only value), \<open>Run\<close> returns nil, and the lookup is its only
  gateway call: no termination, no cancellation.
\<close>

theorem Run_no_instances:
  assumes "getSvc s (AWSConfig cfg) = (Some svc, None)"
    and "DescribeInstancesWithContext svc ctx (describe_input TagNodeName cfg) g = ((Some out, None), g1)"
    and "no_nil out"
    and "instances_of out = []"
  shows "returned (Run TagNodeName s ctx w cfg g) = Return None \<and>
         filter is_call (events (Run TagNodeName s ctx w cfg g)) =
           [DescribeInstances ctx (describe_input TagNodeName cfg) (Some out, None)] \<and>
         provider_after (Run TagNodeName s ctx w cfg g) = g1"
  using assms by (simp add: Run_def Let_def collect_output)

theorem Run_no_instances_witness:
  "getSvc (stub_step (stub_gateway (answer_with []) None None)) (AWSConfig (node_config ''worker-9''))
     = (Some (stub_gateway (answer_with []) None None), None) \<and>
   DescribeInstancesWithContext (stub_gateway (answer_with []) None None) ()
       (describe_input ''Name'' (node_config ''worker-9'')) 0
     = ((Some \<lparr>Reservations = [Some \<lparr>Instances = []\<rparr>]\<rparr>, None), 1) \<and>
   no_nil \<lparr>Reservations = [Some \<lparr>Instances = []\<rparr>]\<rparr> \<and>
   instances_of \<lparr>Reservations = [Some \<lparr>Instances = []\<rparr>]\<rparr> = [] \<and>
   returned (Run ''Name'' (stub_step (stub_gateway (answer_with []) None None)) () ()
              (node_config ''worker-9'') 0) = Return None \<and>
   filter is_call (events (Run ''Name'' (stub_step (stub_gateway (answer_with []) None None)) () ()
              (node_config ''worker-9'') 0)) =
     [DescribeInstances () (describe_input ''Name'' (node_config ''worker-9''))
        (Some \<lparr>Reservations = [Some \<lparr>Instances = []\<rparr>]\<rparr>, None)]"
proof -
  let ?gw = "stub_gateway (answer_with []) None None"
  let ?out = "\<lparr>Reservations = [Some \<lparr>Instances = []\<rparr>]\<rparr>"
  have h1: "getSvc (stub_step ?gw) (AWSConfig (node_config ''worker-9'')) = (Some ?gw, None)"
    by (simp add: stub_step_def)
  have h2: "DescribeInstancesWithContext ?gw () (describe_input ''Name'' (node_config ''worker-9'')) 0
              = ((Some ?out, None), 1)"
    by (simp add: stub_gateway_def answer_with_def)
  have h3: "no_nil ?out"
    by (simp add: shapes)
  have h4: "instances_of ?out = []"
    by (simp add: shapes)
  from Run_no_instances [OF h1 h2 h3 h4, where w = "()"] h1 h2 h3 h4
  show ?thesis by blast
qed

text \<open>
  Without the restriction to results free of nil pointers the property fails: a
  lookup that succeeds with one nil reservation has no instance, and \<open>Run\<close>
  panics on \<open>res.Instances\<close> instead of returning nil.
\<close>

theorem Run_no_instances_counterexample:
  "getSvc (stub_step (stub_gateway (Some \<lparr>Reservations = [None]\<rparr>, None) None None))
     (AWSConfig (node_config ''worker-9'')) =
     (Some (stub_gateway (Some \<lparr>Reservations = [None]\<rparr>, None) None None), None) \<and>
   DescribeInstancesWithContext (stub_gateway (Some \<lparr>Reservations = [None]\<rparr>, None) None None)
     () (describe_input ''Name'' (node_config ''worker-9'')) 0 =
     ((Some \<lparr>Reservations = [None]\<rparr>, None), 1) \<and>
   instances_of \<lparr>Reservations = [None]\<rparr> = [] \<and>
   returned (Run ''Name'' (stub_step (stub_gateway (Some \<lparr>Reservations = [None]\<rparr>, None) None None))
        () () (node_config ''worker-9'') 0) = Panic \<and>
   returned (Run ''Name'' (stub_step (stub_gateway (Some \<lparr>Reservations = [None]\<rparr>, None) None None))
        () () (node_config ''worker-9'') 0) \<noteq> Return None"
  by (simp add: Run_def Let_def fixtures shapes)

text \<open>
  C2. When the lookup succeeds with a result that has no nil pointer (\<open>no_nil\<close>:
  every reservation and instance is there and every instance carries its
  identifier) and at least one instance, \<open>Run\<close> invokes the gateway's termination
  exactly once, right after the lookup (in the provider state \<open>g1\<close> the lookup
  left), with the identifiers of the instances found, in the order of the lookup
  result and so as sets too. The provider is left in the state that termination
  produced, or, when termination succeeded, in the one the cancellation that
  follows produced.
\<close>

theorem Run_terminates_matched:
  assumes "getSvc s (AWSConfig cfg) = (Some svc, None)"
    and "DescribeInstancesWithContext svc ctx (describe_input TagNodeName cfg) g = ((Some out, None), g1)"
    and "no_nil out"
    and "instances_of out \<noteq> []"
  shows "\<exists>req terr g2.
           InstanceIds req = map InstanceId (instances_of out) \<and>
           set (InstanceIds req) = InstanceId ` set (instances_of out) \<and>
           TerminateInstancesWithContext svc ctx req g1 = (terr, g2) \<and>
           filter is_termination (events (Run TagNodeName s ctx w cfg g)) =
             [TerminateInstances ctx req terr] \<and>
           provider_after (Run TagNodeName s ctx w cfg g) =
             (case terr of
                Some e \<Rightarrow> g2
              | None \<Rightarrow>
                  snd (CancelSpotInstanceRequestsWithContext svc ctx
                         \<lparr>SpotInstanceRequestIds =
                            filter (\<lambda>p. p \<noteq> None) (map SpotInstanceRequestId (instances_of out))\<rparr> g2))"
proof -
  let ?R = "Run TagNodeName s ctx w cfg g"
  let ?req = "\<lparr>InstanceIds = map InstanceId (instances_of out)\<rparr>"
  let ?creq = "\<lparr>SpotInstanceRequestIds =
                 filter (\<lambda>p. p \<noteq> None) (map SpotInstanceRequestId (instances_of out))\<rparr>"
  have ids: "aws_StringSlice (map (the \<circ> InstanceId) (instances_of out)) = map InstanceId (instances_of out)"
    using assms(3) by (rule ids_of_no_nil)
  obtain terr g2 where t: "TerminateInstancesWithContext svc ctx ?req g1 = (terr, g2)"
    by (metis surj_pair)
  obtain cerr g3 where c: "CancelSpotInstanceRequestsWithContext svc ctx ?creq g2 = (cerr, g3)"
    by (metis surj_pair)
  note run = Run_found [OF assms, unfolded ids spots_of, OF t c]
  have "filter is_termination (filter is_call (events ?R)) = [TerminateInstances ctx ?req terr]"
    by (simp add: run(2) split: option.splits)
  then have one: "filter is_termination (events ?R) = [TerminateInstances ctx ?req terr]"
    by (simp only: filter_cong_calls)
  have after: "provider_after ?R = (case terr of Some e \<Rightarrow> g2 | None \<Rightarrow> snd (CancelSpotInstanceRequestsWithContext svc ctx ?creq g2))"
    by (cases terr) (simp_all only: run(4) c snd_conv option.case)
  have "InstanceIds ?req = map InstanceId (instances_of out)"
    by simp
  moreover have "set (InstanceIds ?req) = InstanceId ` set (instances_of out)"
    by simp
  ultimately show ?thesis
    using t one after by blast
qed

theorem Run_terminates_matched_witness:
  "no_nil \<lparr>Reservations = [Some \<lparr>Instances = map Some two_instances\<rparr>]\<rparr> \<and>
   instances_of \<lparr>Reservations = [Some \<lparr>Instances = map Some two_instances\<rparr>]\<rparr> \<noteq> [] \<and>
   filter is_termination
     (events (Run ''Name'' (stub_step (stub_gateway (answer_with two_instances) None None)) () ()
                (node_config ''worker-3'') 0)) =
     [TerminateInstances () \<lparr>InstanceIds = [Some ''i-1'', Some ''i-2'']\<rparr> None] \<and>
   provider_after (Run ''Name'' (stub_step (stub_gateway (answer_with two_instances) None None)) () ()
                (node_config ''worker-3'') 0) = 3"
proof -
  let ?gw = "stub_gateway (answer_with two_instances) None None"
  let ?out = "\<lparr>Reservations = [Some \<lparr>Instances = map Some two_instances\<rparr>]\<rparr>"
  let ?R = "Run ''Name'' (stub_step ?gw) () () (node_config ''worker-3'') 0"
  have h1: "getSvc (stub_step ?gw) (AWSConfig (node_config ''worker-3'')) = (Some ?gw, None)"
    by (simp add: stub_step_def)
  have h2: "DescribeInstancesWithContext ?gw () (describe_input ''Name'' (node_config ''worker-3'')) 0
              = ((Some ?out, None), 1)"
    by (simp add: stub_gateway_def answer_with_def)
  have h3: "no_nil ?out"
    by (simp add: shapes two_instances_def)
  have h4: "instances_of ?out \<noteq> []"
    by (simp add: shapes two_instances_def)
  have ids: "map InstanceId (instances_of ?out) = [Some ''i-1'', Some ''i-2'']"
    by (simp add: shapes two_instances_def)
  from Run_terminates_matched [OF h1 h2 h3 h4, where w = "()"]
  obtain req terr g2 where
    req: "InstanceIds req = map InstanceId (instances_of ?out)"
    and "set (InstanceIds req) = InstanceId ` set (instances_of ?out)"
    and t: "TerminateInstancesWithContext ?gw () req 1 = (terr, g2)"
    and one: "filter is_termination (events ?R) = [TerminateInstances () req terr]"
    and after: "provider_after ?R =
      (case terr of
         Some e \<Rightarrow> g2
       | None \<Rightarrow>
           snd (CancelSpotInstanceRequestsWithContext ?gw ()
                  \<lparr>SpotInstanceRequestIds =
                     filter (\<lambda>p. p \<noteq> None) (map SpotInstanceRequestId (instances_of ?out))\<rparr> g2))"
    by (elim exE conjE) (rule that; assumption)
  from req have req': "req = \<lparr>InstanceIds = [Some ''i-1'', Some ''i-2'']\<rparr>"
    unfolding ids by (rule InstanceIds_eq)
  from t have terr: "terr = None" and g2: "g2 = 2"
    by (simp_all add: stub_gateway_def)
  have "provider_after ?R = 3"
    unfolding after terr g2 by (simp add: stub_gateway_def)
  with one req' terr h3 h4 show ?thesis
    by simp
qed

text \<open>
  Without the restriction to results free of nil pointers the property fails: a
  lookup that succeeds with one instance and a nil reservation after it makes
  \<open>Run\<close> panic on \<open>res.Instances\<close> before any termination is issued.
\<close>

theorem Run_terminates_matched_counterexample:
  "getSvc (stub_step (stub_gateway
       (Some \<lparr>Reservations = [Some \<lparr>Instances = [Some (two_instances ! 0)]\<rparr>, None]\<rparr>, None) None None))
     (AWSConfig (node_config ''worker-3'')) =
     (Some (stub_gateway
       (Some \<lparr>Reservations = [Some \<lparr>Instances = [Some (two_instances ! 0)]\<rparr>, None]\<rparr>, None) None None),
      None) \<and>
   DescribeInstancesWithContext
     (stub_gateway
       (Some \<lparr>Reservations = [Some \<lparr>Instances = [Some (two_instances ! 0)]\<rparr>, None]\<rparr>, None) None None)
     () (describe_input ''Name'' (node_config ''worker-3'')) 0 =
     ((Some \<lparr>Reservations = [Some \<lparr>Instances = [Some (two_instances ! 0)]\<rparr>, None]\<rparr>, None), 1) \<and>
   instances_of \<lparr>Reservations = [Some \<lparr>Instances = [Some (two_instances ! 0)]\<rparr>, None]\<rparr> =
     [\<lparr>InstanceId = Some ''i-1'', SpotInstanceRequestId = Some ''sir-1''\<rparr>] \<and>
   filter is_termination
     (events (Run ''Name''
        (stub_step (stub_gateway
          (Some \<lparr>Reservations = [Some \<lparr>Instances = [Some (two_instances ! 0)]\<rparr>, None]\<rparr>, None) None None))
        () () (node_config ''worker-3'') 0)) = [] \<and>
   returned (Run ''Name''
        (stub_step (stub_gateway
          (Some \<lparr>Reservations = [Some \<lparr>Instances = [Some (two_instances ! 0)]\<rparr>, None]\<rparr>, None) None None))
        () () (node_config ''worker-3'') 0) = Panic"
  by (simp add: Run_def Let_def fixtures shapes two_instances_def)

text \<open>
  C3. In a run whose termination request succeeded, \<open>Run\<close> returns nil whatever
  the cancellation answers; a cancellation error only shows as an error line on
  the global logger.
\<close>

theorem Run_cancel_failure_not_fatal:
  assumes "TerminateInstances c req None \<in> set (events (Run TagNodeName s ctx w cfg g))"
  shows "returned (Run TagNodeName s ctx w cfg g) = Return None \<and>
         (\<forall>c' req' e. CancelSpotInstanceRequests c' req' (Some e) \<in> set (events (Run TagNodeName s ctx w cfg g))
            \<longrightarrow> Logrus ErrorLevel ''cancel spot requests caused %v'' [E e]
                  \<in> set (events (Run TagNodeName s ctx w cfg g)))"
proof -
  let ?R = "Run TagNodeName s ctx w cfg g"
  from Run_termination_event [OF assms] obtain svc out g1 g2 where
    h: "getSvc s (AWSConfig cfg) = (Some svc, None)"
       "DescribeInstancesWithContext svc ctx (describe_input TagNodeName cfg) g = ((Some out, None), g1)"
       "no_nil out" "instances_of out \<noteq> []"
       "TerminateInstancesWithContext svc ctx
          \<lparr>InstanceIds = aws_StringSlice (map (the \<circ> InstanceId) (instances_of out))\<rparr> g1 = (None, g2)"
    by auto
  obtain cerr g3 where
    c: "CancelSpotInstanceRequestsWithContext svc ctx
          \<lparr>SpotInstanceRequestIds =
             aws_StringSlice (List.map_filter SpotInstanceRequestId (instances_of out))\<rparr> g2 = (cerr, g3)"
    by (metis surj_pair)
  note run = Run_found [OF h c]
  have "returned ?R = Return None"
    by (simp add: run(1))
  moreover have "Logrus ErrorLevel ''cancel spot requests caused %v'' [E e] \<in> set (events ?R)"
    if "CancelSpotInstanceRequests c' req' (Some e) \<in> set (events ?R)" for c' req' e
  proof -
    from that have "CancelSpotInstanceRequests c' req' (Some e) \<in> set (filter is_call (events ?R))"
      by simp
    then have "cerr = Some e"
      by (simp add: run(2))
    then show ?thesis
      by (rule run(3) [OF refl])
  qed
  ultimately show ?thesis by blast
qed

theorem Run_cancel_failure_not_fatal_witness:
  "TerminateInstances () \<lparr>InstanceIds = [Some ''i-1'', Some ''i-2'']\<rparr> None
     \<in> set (events (Run ''Name''
           (stub_step (stub_gateway (answer_with two_instances) None (Some (Foreign ''InternalError''))))
           () () (node_config ''worker-3'') 0)) \<and>
   CancelSpotInstanceRequests () \<lparr>SpotInstanceRequestIds = [Some ''sir-1'']\<rparr> (Some (Foreign ''InternalError''))
     \<in> set (events (Run ''Name''
           (stub_step (stub_gateway (answer_with two_instances) None (Some (Foreign ''InternalError''))))
           () () (node_config ''worker-3'') 0)) \<and>
   returned (Run ''Name''
           (stub_step (stub_gateway (answer_with two_instances) None (Some (Foreign ''InternalError''))))
           () () (node_config ''worker-3'') 0) = Return None \<and>
   Logrus ErrorLevel ''cancel spot requests caused %v'' [E (Foreign ''InternalError'')]
     \<in> set (events (Run ''Name''
           (stub_step (stub_gateway (answer_with two_instances) None (Some (Foreign ''InternalError''))))
           () () (node_config ''worker-3'') 0))"
proof -
  let ?R = "Run ''Name''
           (stub_step (stub_gateway (answer_with two_instances) None (Some (Foreign ''InternalError''))))
           () () (node_config ''worker-3'') 0"
  have h1: "TerminateInstances () \<lparr>InstanceIds = [Some ''i-1'', Some ''i-2'']\<rparr> None \<in> set (events ?R)"
    by (simp add: Run_def Let_def fixtures two_instances_def)
  have h2: "CancelSpotInstanceRequests () \<lparr>SpotInstanceRequestIds = [Some ''sir-1'']\<rparr>
              (Some (Foreign ''InternalError'')) \<in> set (events ?R)"
    by (simp add: Run_def Let_def fixtures two_instances_def)
  from Run_cancel_failure_not_fatal [OF h1] h1 h2
  show ?thesis by blast
qed

text \<open>
  C4. In a run whose termination request (which is only issued for a non-empty
  list of identifiers) failed with \<open>e\<close>, \<open>Run\<close> returns \<open>e\<close> wrapped with the
  message \<open>aws_delete_node terminate instance\<close>, and no cancellation is issued.
\<close>

theorem Run_termination_failure:
  assumes "TerminateInstances c req (Some e) \<in> set (events (Run TagNodeName s ctx w cfg g))"
  shows "returned (Run TagNodeName s ctx w cfg g) =
           Return (Some (Wrap e (Text ''aws_delete_node terminate instance''))) \<and>
         filter is_cancellation (events (Run TagNodeName s ctx w cfg g)) = [] \<and>
         InstanceIds req \<noteq> []"
proof -
  let ?R = "Run TagNodeName s ctx w cfg g"
  from Run_termination_event [OF assms] obtain svc out g1 g2 where
    h: "getSvc s (AWSConfig cfg) = (Some svc, None)"
       "DescribeInstancesWithContext svc ctx (describe_input TagNodeName cfg) g = ((Some out, None), g1)"
       "no_nil out" "instances_of out \<noteq> []"
       "TerminateInstancesWithContext svc ctx
          \<lparr>InstanceIds = aws_StringSlice (map (the \<circ> InstanceId) (instances_of out))\<rparr> g1 = (Some e, g2)"
    and req: "req = \<lparr>InstanceIds = aws_StringSlice (map (the \<circ> InstanceId) (instances_of out))\<rparr>"
    by auto
  obtain cerr g3 where
    c: "CancelSpotInstanceRequestsWithContext svc ctx
          \<lparr>SpotInstanceRequestIds =
             aws_StringSlice (List.map_filter SpotInstanceRequestId (instances_of out))\<rparr> g2 = (cerr, g3)"
    by (metis surj_pair)
  note run = Run_found [OF h c]
  have "returned ?R = Return (Some (Wrap e (Text ''aws_delete_node terminate instance'')))"
    by (simp add: run(1))
  moreover have "filter is_cancellation (filter is_call (events ?R)) = []"
    by (simp add: run(2))
  then have "filter is_cancellation (events ?R) = []"
    by (simp only: filter_cong_calls)
  moreover have "InstanceIds req \<noteq> []"
    using h(4) by (simp add: req aws_StringSlice_def)
  ultimately show ?thesis by blast
qed

theorem Run_termination_failure_witness:
  "TerminateInstances () \<lparr>InstanceIds = [Some ''i-1'', Some ''i-2'']\<rparr> (Some (Foreign ''RequestLimitExceeded''))
     \<in> set (events (Run ''Name''
           (stub_step (stub_gateway (answer_with two_instances) (Some (Foreign ''RequestLimitExceeded'')) None))
           () () (node_config ''worker-3'') 0)) \<and>
   returned (Run ''Name''
           (stub_step (stub_gateway (answer_with two_instances) (Some (Foreign ''RequestLimitExceeded'')) None))
           () () (node_config ''worker-3'') 0) =
     Return (Some (Wrap (Foreign ''RequestLimitExceeded'') (Text ''aws_delete_node terminate instance''))) \<and>
   filter is_cancellation (events (Run ''Name''
           (stub_step (stub_gateway (answer_with two_instances) (Some (Foreign ''RequestLimitExceeded'')) None))
           () () (node_config ''worker-3'') 0)) = []"
proof -
  let ?R = "Run ''Name''
           (stub_step (stub_gateway (answer_with two_instances) (Some (Foreign ''RequestLimitExceeded'')) None))
           () () (node_config ''worker-3'') 0"
  have h1: "TerminateInstances () \<lparr>InstanceIds = [Some ''i-1'', Some ''i-2'']\<rparr>
              (Some (Foreign ''RequestLimitExceeded'')) \<in> set (events ?R)"
    by (simp add: Run_def Let_def fixtures two_instances_def)
  from Run_termination_failure [OF h1] h1
  show ?thesis by blast
qed



text \<open>
  C6. \<open>Rollback\<close> returns nil for every context, sink, configuration and provider
  state, and has no effect: no event, the configuration and the provider's state
  as they were.
\<close>

theorem Rollback_noop:
  "returned (Rollback s ctx w cfg g) = Return None \<and>
   events (Rollback s ctx w cfg g) = [] \<and>
   config_after (Rollback s ctx w cfg g) = cfg \<and>
   provider_after (Rollback s ctx w cfg g) = g"
  by (simp add: Rollback_def)

text \<open>
  C7. In a run whose termination request succeeded, \<open>Run\<close> invokes the gateway's
  cancellation exactly once, in the provider state \<open>g2\<close> that termination left and
  with the gateway's answer recorded; its identifiers are the spot request
  identifiers of the instances of the lookup result that have one, and nothing
  for an instance that has none. The request is issued whether or not that list
  is empty, and the provider is left in the state the cancellation produced.
\<close>

theorem Run_cancels_spot_requests:
  assumes "TerminateInstances c treq None \<in> set (events (Run TagNodeName s ctx w cfg g))"
  shows "\<exists>svc out g1 g2 creq cerr g3.
           getSvc s (AWSConfig cfg) = (Some svc, None) \<and>
           DescribeInstancesWithContext svc ctx (describe_input TagNodeName cfg) g = ((Some out, None), g1) \<and>
           TerminateInstancesWithContext svc ctx treq g1 = (None, g2) \<and>
           SpotInstanceRequestIds creq =
             filter (\<lambda>p. p \<noteq> None) (map SpotInstanceRequestId (instances_of out)) \<and>
           set (SpotInstanceRequestIds creq) = SpotInstanceRequestId ` set (instances_of out) - {None} \<and>
           CancelSpotInstanceRequestsWithContext svc ctx creq g2 = (cerr, g3) \<and>
           filter is_cancellation (events (Run TagNodeName s ctx w cfg g)) =
             [CancelSpotInstanceRequests ctx creq cerr] \<and>
           provider_after (Run TagNodeName s ctx w cfg g) = g3"
proof -
  let ?R = "Run TagNodeName s ctx w cfg g"
  from Run_termination_event [OF assms] obtain svc out g1 g2 where
    h: "getSvc s (AWSConfig cfg) = (Some svc, None)"
       "DescribeInstancesWithContext svc ctx (describe_input TagNodeName cfg) g = ((Some out, None), g1)"
       "no_nil out" "instances_of out \<noteq> []"
       "TerminateInstancesWithContext svc ctx
          \<lparr>InstanceIds = aws_StringSlice (map (the \<circ> InstanceId) (instances_of out))\<rparr> g1 = (None, g2)"
    and treq: "treq = \<lparr>InstanceIds = aws_StringSlice (map (the \<circ> InstanceId) (instances_of out))\<rparr>"
    by auto
  let ?creq = "\<lparr>SpotInstanceRequestIds =
                 filter (\<lambda>p. p \<noteq> None) (map SpotInstanceRequestId (instances_of out))\<rparr>"
  obtain cerr g3 where c: "CancelSpotInstanceRequestsWithContext svc ctx ?creq g2 = (cerr, g3)"
    by (metis surj_pair)
  note run = Run_found [OF h, unfolded spots_of, OF c]
  have "filter is_cancellation (filter is_call (events ?R)) = [CancelSpotInstanceRequests ctx ?creq cerr]"
    by (simp add: run(2))
  then have one: "filter is_cancellation (events ?R) = [CancelSpotInstanceRequests ctx ?creq cerr]"
    by (simp only: filter_cong_calls)
  have after: "provider_after ?R = g3"
    by (simp add: run(4))
  have t: "TerminateInstancesWithContext svc ctx treq g1 = (None, g2)"
    using h(5) by (simp only: treq)
  have ids: "SpotInstanceRequestIds ?creq =
               filter (\<lambda>p. p \<noteq> None) (map SpotInstanceRequestId (instances_of out))"
    by simp
  have sets: "set (SpotInstanceRequestIds ?creq) = SpotInstanceRequestId ` set (instances_of out) - {None}"
    by auto
  from h(1) h(2) t ids sets c one after show ?thesis
    by blast
qed

theorem Run_cancels_spot_requests_witness:
  "TerminateInstances () \<lparr>InstanceIds = [Some ''i-1'', Some ''i-2'']\<rparr> None
     \<in> set (events (Run ''Name'' (stub_step (stub_gateway (answer_with two_instances) None None)) () ()
                      (node_config ''worker-3'') 0)) \<and>
   filter is_cancellation
     (events (Run ''Name'' (stub_step (stub_gateway (answer_with two_instances) None None)) () ()
                (node_config ''worker-3'') 0)) =
     [CancelSpotInstanceRequests () \<lparr>SpotInstanceRequestIds = [Some ''sir-1'']\<rparr> None] \<and>
   provider_after (Run ''Name'' (stub_step (stub_gateway (answer_with two_instances) None None)) () ()
                (node_config ''worker-3'') 0) = 3 \<and>
   TerminateInstances () \<lparr>InstanceIds = [Some ''i-2'']\<rparr> None
     \<in> set (events (Run ''Name'' (stub_step (stub_gateway (answer_with [two_instances ! 1]) None None)) () ()
                      (node_config ''worker-3'') 0)) \<and>
   filter is_cancellation
     (events (Run ''Name'' (stub_step (stub_gateway (answer_with [two_instances ! 1]) None None)) () ()
                (node_config ''worker-3'') 0)) =
     [CancelSpotInstanceRequests () \<lparr>SpotInstanceRequestIds = []\<rparr> None] \<and>
   provider_after (Run ''Name'' (stub_step (stub_gateway (answer_with [two_instances ! 1]) None None)) () ()
                (node_config ''worker-3'') 0) = 3"
proof -
  let ?cfg = "node_config ''worker-3''"
  let ?gw = "stub_gateway (answer_with two_instances) None None"
  let ?gw' = "stub_gateway (answer_with [two_instances ! 1]) None None"
  let ?R = "Run ''Name'' (stub_step ?gw) () () ?cfg 0"
  let ?R' = "Run ''Name'' (stub_step ?gw') () () ?cfg 0"
  have t: "TerminateInstances () \<lparr>InstanceIds = [Some ''i-1'', Some ''i-2'']\<rparr> None \<in> set (events ?R)"
    by (simp add: Run_def Let_def fixtures two_instances_def)
  have t': "TerminateInstances () \<lparr>InstanceIds = [Some ''i-2'']\<rparr> None \<in> set (events ?R')"
    by (simp add: Run_def Let_def fixtures two_instances_def)
  from Run_cancels_spot_requests [OF t] obtain svc out g1 g2 creq cerr g3 where
    a: "getSvc (stub_step ?gw) (AWSConfig ?cfg) = (Some svc, None)"
       "DescribeInstancesWithContext svc () (describe_input ''Name'' ?cfg) 0 = ((Some out, None), g1)"
       "TerminateInstancesWithContext svc () \<lparr>InstanceIds = [Some ''i-1'', Some ''i-2'']\<rparr> g1 = (None, g2)"
       "SpotInstanceRequestIds creq =
          filter (\<lambda>p. p \<noteq> None) (map SpotInstanceRequestId (instances_of out))"
       "set (SpotInstanceRequestIds creq) = SpotInstanceRequestId ` set (instances_of out) - {None}"
       "CancelSpotInstanceRequestsWithContext svc () creq g2 = (cerr, g3)"
       "filter is_cancellation (events ?R) = [CancelSpotInstanceRequests () creq cerr]"
       "provider_after ?R = g3"
    by (elim exE conjE) (rule that; assumption)
  from a(1) have svc: "svc = ?gw"
    by (simp add: stub_step_def)
  from a(2) have out: "out = \<lparr>Reservations = [Some \<lparr>Instances = map Some two_instances\<rparr>]\<rparr>" and g1: "g1 = 1"
    unfolding svc by (auto simp add: stub_gateway_def answer_with_def)
  from a(3) have g2: "g2 = 2"
    unfolding svc g1 by (simp add: stub_gateway_def)
  from a(4) have creq: "creq = \<lparr>SpotInstanceRequestIds = [Some ''sir-1'']\<rparr>"
    unfolding out by (intro SpotInstanceRequestIds_eq) (simp add: shapes two_instances_def)
  from a(6) have cerr: "cerr = None" and g3: "g3 = 3"
    unfolding svc g2 by (simp_all add: stub_gateway_def)
  from Run_cancels_spot_requests [OF t'] obtain svc' out' g1' g2' creq' cerr' g3' where
    b: "getSvc (stub_step ?gw') (AWSConfig ?cfg) = (Some svc', None)"
       "DescribeInstancesWithContext svc' () (describe_input ''Name'' ?cfg) 0 = ((Some out', None), g1')"
       "TerminateInstancesWithContext svc' () \<lparr>InstanceIds = [Some ''i-2'']\<rparr> g1' = (None, g2')"
       "SpotInstanceRequestIds creq' =
          filter (\<lambda>p. p \<noteq> None) (map SpotInstanceRequestId (instances_of out'))"
       "set (SpotInstanceRequestIds creq') = SpotInstanceRequestId ` set (instances_of out') - {None}"
       "CancelSpotInstanceRequestsWithContext svc' () creq' g2' = (cerr', g3')"
       "filter is_cancellation (events ?R') = [CancelSpotInstanceRequests () creq' cerr']"
       "provider_after ?R' = g3'"
    by (elim exE conjE) (rule that; assumption)
  from b(1) have svc': "svc' = ?gw'"
    by (simp add: stub_step_def)
  from b(2) have out': "out' = \<lparr>Reservations = [Some \<lparr>Instances = map Some [two_instances ! 1]\<rparr>]\<rparr>"
    and g1': "g1' = 1"
    unfolding svc' by (auto simp add: stub_gateway_def answer_with_def)
  from b(3) have g2': "g2' = 2"
    unfolding svc' g1' by (simp add: stub_gateway_def)
  from b(4) have creq': "creq' = \<lparr>SpotInstanceRequestIds = []\<rparr>"
    unfolding out' by (intro SpotInstanceRequestIds_eq) (simp add: shapes two_instances_def)
  from b(6) have cerr': "cerr' = None" and g3': "g3' = 3"
    unfolding svc' g2' by (simp_all add: stub_gateway_def)
  from t t' a(7) a(8) b(7) b(8) show ?thesis
    unfolding creq cerr g3 creq' cerr' g3' by simp
qed

text \<open>
  C8. \<open>Run\<close> does panic: when the lookup answers with an instance record whose
  identifier is nil, line 80 dereferences it and the step ends in a run-time
  panic instead of returning an error.
\<close>

theorem Run_panics_on_nil_InstanceId:
  "returned (Run ''Name''
      (stub_step (stub_gateway (answer_with [\<lparr>InstanceId = None, SpotInstanceRequestId = None\<rparr>]) None None))
      () () (node_config ''worker-3'') 0) = Panic"
  by (simp add: Run_def Let_def fixtures)

text \<open>
  C9. The configuration behind \<open>cfg\<close> is the same after \<open>Run\<close> as before, however
  the run ends.
\<close>

theorem Run_config_unchanged:
  "config_after (Run TagNodeName s ctx w cfg g) = cfg"
  by (simp add: Run_def Let_def split: prod.splits option.splits)

text \<open>
  C10. With a gateway whose answers are a fixed function of the requests, two
  invocations of \<open>Run\<close> with the same arguments, started in any two provider
  states, end the same way and produce the same events in the same order (the
  gateway calls among them, with their requests and answers).
\<close>

theorem Run_deterministic:
  assumes "\<forall>svc. fst (getSvc s (AWSConfig cfg)) = Some svc \<longrightarrow> fixed_responses svc"
  shows "returned (Run TagNodeName s ctx w cfg g) = returned (Run TagNodeName s ctx w cfg g') \<and>
         events (Run TagNodeName s ctx w cfg g) = events (Run TagNodeName s ctx w cfg g')"
proof -
  obtain p perr where svc: "getSvc s (AWSConfig cfg) = (p, perr)"
    by (metis surj_pair)
  show ?thesis
  proof (cases "perr = None \<and> p \<noteq> None")
    case False
    then show ?thesis
      using svc by (cases perr; cases p) (simp_all add: Run_def)
  next
    case True
    then obtain svc where p: "p = Some svc" and perr: "perr = None"
      by auto
    have fixed: "fixed_responses svc"
      using assms svc p by simp
    let ?input = "describe_input TagNodeName cfg"
    obtain a g1 where d: "DescribeInstancesWithContext svc ctx ?input g = (a, g1)"
      by (metis surj_pair)
    obtain a' g1' where d': "DescribeInstancesWithContext svc ctx ?input g' = (a', g1')"
      by (metis surj_pair)
    have a: "a' = a"
      using fixed d d' unfolding fixed_responses_def by (metis fst_conv)
    obtain q qerr where q: "a = (q, qerr)"
      by (metis surj_pair)
    show ?thesis
    proof (cases "collect_reservations (Reservations (the q)) ([], [])")
      case None
      then show ?thesis
        using svc p perr d d' a q
        by (cases qerr; cases q) (simp_all add: Run_def)
    next
      case (Some acc)
      obtain ids spots where acc: "acc = (ids, spots)"
        by (metis surj_pair)
      let ?treq = "\<lparr>InstanceIds = aws_StringSlice ids\<rparr>"
      let ?creq = "\<lparr>SpotInstanceRequestIds = aws_StringSlice spots\<rparr>"
      obtain t g2 where t: "TerminateInstancesWithContext svc ctx ?treq g1 = (t, g2)"
        by (metis surj_pair)
      obtain t' g2' where t': "TerminateInstancesWithContext svc ctx ?treq g1' = (t', g2')"
        by (metis surj_pair)
      have tt: "t' = t"
        using fixed t t' unfolding fixed_responses_def by (metis fst_conv)
      obtain c g3 where c: "CancelSpotInstanceRequestsWithContext svc ctx ?creq g2 = (c, g3)"
        by (metis surj_pair)
      obtain c' g3' where c': "CancelSpotInstanceRequestsWithContext svc ctx ?creq g2' = (c', g3')"
        by (metis surj_pair)
      have cc: "c' = c"
        using fixed c c' unfolding fixed_responses_def by (metis fst_conv)
      show ?thesis
        using svc p perr d d' a q Some acc t t' tt c c' cc
        by (cases qerr; cases q; cases t) (simp_all add: Run_def Let_def)
    qed
  qed
qed

theorem Run_deterministic_witness:
  "fixed_responses (stub_gateway (answer_with two_instances) None (Some (Foreign ''InternalError''))) \<and>
   returned (Run ''Name''
       (stub_step (stub_gateway (answer_with two_instances) None (Some (Foreign ''InternalError''))))
       () () (node_config ''worker-3'') 0) =
   returned (Run ''Name''
       (stub_step (stub_gateway (answer_with two_instances) None (Some (Foreign ''InternalError''))))
       () () (node_config ''worker-3'') 5) \<and>
   events (Run ''Name''
       (stub_step (stub_gateway (answer_with two_instances) None (Some (Foreign ''InternalError''))))
       () () (node_config ''worker-3'') 0) =
   events (Run ''Name''
       (stub_step (stub_gateway (answer_with two_instances) None (Some (Foreign ''InternalError''))))
       () () (node_config ''worker-3'') 5) \<and>
   provider_after (Run ''Name''
       (stub_step (stub_gateway (answer_with two_instances) None (Some (Foreign ''InternalError''))))
       () () (node_config ''worker-3'') 0) \<noteq>
   provider_after (Run ''Name''
       (stub_step (stub_gateway (answer_with two_instances) None (Some (Foreign ''InternalError''))))
       () () (node_config ''worker-3'') 5)"
proof -
  let ?gw = "stub_gateway (answer_with two_instances) None (Some (Foreign ''InternalError''))"
  let ?cfg = "node_config ''worker-3''"
  have fixed: "fixed_responses ?gw"
    by (simp add: fixed_responses_def stub_gateway_def)
  then have h: "\<forall>svc. fst (getSvc (stub_step ?gw) (AWSConfig ?cfg)) = Some svc \<longrightarrow> fixed_responses svc"
    by (simp add: stub_step_def)
  have differ: "provider_after (Run ''Name'' (stub_step ?gw) () () ?cfg 0) \<noteq>
                provider_after (Run ''Name'' (stub_step ?gw) () () ?cfg 5)"
    by (simp add: Run_def Let_def fixtures two_instances_def)
  from Run_deterministic [OF h, where TagNodeName = "''Name''" and ctx = "()" and w = "()" and g = 0 and g' = 5]
    fixed differ
  show ?thesis by blast
qed

end
